theory Spec2Isabelle
  imports Complex_Main
begin

section \<open>Agent process orchestrator (src/lib/agent-service.ts)\<close>

text \<open>
  The orchestrator keeps one module-level table, \<open>agentProcesses\<close>, from room name to
  the record of the child process launched for that room. Everything it does beyond
  that table goes through the operating system (spawn, kill, files, the clock) or the
  conferencing service (rooms, participants). The embedding passes the table along
  explicitly and takes the outcome of every external call as an input, so that each
  \<open>throw\<close>, rejected promise and asynchronous process event of the source is a branch of
  the model. Diagnostic logging (\<open>debug\<close>, \<open>console.error\<close>) has no effect on any value
  and is left out.
\<close>

subsection \<open>Data model\<close>

text \<open>The string literal type \<open>'starting' | 'running' | 'error'\<close>.\<close>

datatype status = Starting | Running | Error

text \<open>
  A value of the map \<open>agentProcesses\<close>. The field \<open>process\<close> is the \<open>ChildProcess\<close>
  object; here it is the position of that child in the list of children spawned so far.
  \<open>startTime\<close> is \<open>Date.getTime()\<close>, whole milliseconds since the epoch. These are
  integers far below \<open>2 ^ 53\<close>, so the source's double arithmetic on them is exact.
\<close>

record agentInfo =
  process :: nat
  status :: status
  error :: "string option"
  pid :: nat
  startTime :: int

type_synonym registry = "string \<rightharpoonup> agentInfo"

text \<open>The object returned by \<open>getAgentStatus\<close>; an optional property is an option.\<close>

record agentStatus =
  running :: bool
  st_pid :: "nat option"
  st_status :: "status option"
  st_error :: "string option"
  uptime :: "int option"

subsection \<open>Local status queries\<close>

definition isAgentRunning :: "registry \<Rightarrow> string \<Rightarrow> bool" where
  "isAgentRunning agents roomName =
     (case agents roomName of
        None \<Rightarrow> False
      | Some agentProcess \<Rightarrow> status agentProcess \<noteq> Error)"

text \<open>\<open>now\<close> is the reading of \<open>new Date().getTime()\<close> taken by the call.\<close>

definition getAgentStatus :: "registry \<Rightarrow> int \<Rightarrow> string \<Rightarrow> agentStatus" where
  "getAgentStatus agents now roomName =
     (case agents roomName of
        None \<Rightarrow>
          \<lparr>running = False, st_pid = None, st_status = None, st_error = None,
           uptime = None\<rparr>
      | Some agentProcess \<Rightarrow>
          \<lparr>running = (status agentProcess \<noteq> Error),
           st_pid = Some (pid agentProcess),
           st_status = Some (status agentProcess),
           st_error = error agentProcess,
           uptime = Some \<lfloor>real_of_int (now - startTime agentProcess) / 1000\<rfloor>\<rparr>)"

subsection \<open>The conferencing service (src/lib/room-service.ts)\<close>

text \<open>
  A participant as \<open>listParticipants\<close> returns it. \<open>metadata\<close> is a string; the empty
  string stands for both \<open>""\<close> and \<open>undefined\<close>, the two values the test
  \<open>if (participant.metadata)\<close> treats as absent.
\<close>

record participant =
  identity :: string
  metadata :: string

text \<open>
  The SDK client and the configuration it is built from. A call that can reject or throw
  returns a sum, \<open>Inl\<close> carrying the message of the thrown error. A \<open>Room\<close> object is
  represented by its name, the only property the source reads.
\<close>

record service =
  configured :: bool
  hasGetRoom :: bool
  sdkGetRoom :: "string \<Rightarrow> string + string option"
  sdkListRooms :: "string + string list"
  sdkCreateRoom :: "string \<Rightarrow> string option"
  hasListParticipants :: bool
  sdkListParticipants :: "string \<Rightarrow> string + participant list"

definition configMissing :: string where
  "configMissing = ''LiveKit configuration missing. Please check environment variables.''"

text \<open>
  \<open>getRoom\<close> builds the client outside its \<open>try\<close>, so a missing configuration
  propagates; every failure of the query itself is caught and becomes \<open>null\<close>.
\<close>

definition getRoom :: "service \<Rightarrow> string \<Rightarrow> string + string option" where
  "getRoom svc name =
     (if \<not> configured svc then Inl configMissing
      else if hasGetRoom svc then
        (case sdkGetRoom svc name of
           Inl err \<Rightarrow> Inr None
         | Inr room \<Rightarrow> Inr room)
      else
        (case sdkListRooms svc of
           Inl err \<Rightarrow> Inr None
         | Inr rooms \<Rightarrow> Inr (find (\<lambda>room. room = name) rooms)))"

definition roomExists :: "service \<Rightarrow> string \<Rightarrow> bool" where
  "roomExists svc name =
     (case getRoom svc name of
        Inl err \<Rightarrow> False
      | Inr room \<Rightarrow> room \<noteq> None)"

text \<open>\<open>createRoom\<close>: \<open>Some\<close> message when the call throws or rejects.\<close>

definition createRoom :: "service \<Rightarrow> string \<Rightarrow> string option" where
  "createRoom svc name =
     (if \<not> configured svc then Some configMissing else sdkCreateRoom svc name)"

subsection \<open>Presence check\<close>

text \<open>
  The value of \<open>JSON.parse\<close>. An object is the list of its own properties, each key
  once.
\<close>

datatype json =
  JNull
  | JBool bool
  | JNumber real
  | JString string
  | JArray "json list"
  | JObject "(string \<times> json) list"

text \<open>JavaScript truthiness of a parsed value.\<close>

fun truthy :: "json \<Rightarrow> bool" where
  "truthy JNull = False"
| "truthy (JBool b) = b"
| "truthy (JNumber x) = (x \<noteq> 0)"
| "truthy (JString s) = (s \<noteq> [])"
| "truthy (JArray xs) = True"
| "truthy (JObject kvs) = True"

text \<open>
  The test \<open>metadata.isAgent\<close> on a parsed value: reading a property of \<open>null\<close> throws
  a \<open>TypeError\<close> (\<open>None\<close>); a missing property is \<open>undefined\<close>, which is falsy.
\<close>

fun isAgentFlag :: "json \<Rightarrow> bool option" where
  "isAgentFlag JNull = None"
| "isAgentFlag (JObject kvs) =
     (case map_of kvs ''isAgent'' of
        None \<Rightarrow> Some False
      | Some v \<Rightarrow> Some (truthy v))"
| "isAgentFlag v = Some False"

text \<open>\<open>String.prototype.startsWith\<close> and \<open>String.prototype.includes\<close>.\<close>

definition startsWith :: "string \<Rightarrow> string \<Rightarrow> bool" where
  "startsWith s p = (take (length p) s = p)"

fun str_includes :: "string \<Rightarrow> string \<Rightarrow> bool" where
  "str_includes [] p = (p = [])"
| "str_includes (c # cs) p = (startsWith (c # cs) p \<or> str_includes cs p)"

definition agentIdentity :: "string \<Rightarrow> bool" where
  "agentIdentity ident =
     (startsWith ident ''agent-'' \<or> str_includes ident ''assistant''
      \<or> str_includes ident ''bot'')"

text \<open>
  The body of the \<open>for\<close> loop for one participant: \<open>Some True\<close> is \<open>return true\<close>,
  \<open>None\<close> is falling through to the next participant, either at the end of the body or
  through the \<open>catch\<close> that skips a participant whose metadata cannot be used.
  \<open>parse\<close> is \<open>JSON.parse\<close>, \<open>None\<close> when it throws a \<open>SyntaxError\<close>.
\<close>

definition inspectParticipant :: "(string \<Rightarrow> json option) \<Rightarrow> participant \<Rightarrow> bool option" where
  "inspectParticipant parse p =
     (if metadata p \<noteq> [] then
        (case parse (metadata p) of
           None \<Rightarrow> None
         | Some md \<Rightarrow>
             (case isAgentFlag md of
                None \<Rightarrow> None
              | Some True \<Rightarrow> Some True
              | Some False \<Rightarrow> if agentIdentity (identity p) then Some True else None))
      else if agentIdentity (identity p) then Some True else None)"

fun scanParticipants :: "(string \<Rightarrow> json option) \<Rightarrow> participant list \<Rightarrow> bool option" where
  "scanParticipants parse [] = None"
| "scanParticipants parse (p # ps) =
     (case inspectParticipant parse p of
        Some r \<Rightarrow> Some r
      | None \<Rightarrow> scanParticipants parse ps)"

text \<open>
  \<open>checkAgentInRoom\<close>. \<open>rnd\<close> is the value \<open>Math.random()\<close> returns if it is called,
  a number in \<open>[0, 1)\<close>. No double lies strictly between the double nearest to
  \<open>0.7\<close> and the real \<open>7/10\<close>, so the comparison is the same over the reals.
  \<open>roomExists\<close> catches every error itself, so the outer \<open>catch\<close> of the source has
  nothing to catch and has no branch here.
\<close>

definition checkAgentInRoom ::
  "service \<Rightarrow> (string \<Rightarrow> json option) \<Rightarrow> real \<Rightarrow> string \<Rightarrow> bool" where
  "checkAgentInRoom svc parse rnd roomName =
     (if \<not> roomExists svc roomName then False
      else if \<not> configured svc then rnd > 7 / 10
      else if \<not> hasListParticipants svc then False
      else
        (case sdkListParticipants svc roomName of
           Inl err \<Rightarrow> rnd > 7 / 10
         | Inr participants \<Rightarrow>
             (case scanParticipants parse participants of
                Some r \<Rightarrow> r
              | None \<Rightarrow> False)))"

text \<open>\<open>getFullAgentStatus\<close>: the local status and the presence check, side by side.\<close>

record fullAgentStatus =
  localProcessRunning :: bool
  agentInRoom :: bool
  full_pid :: "nat option"
  full_status :: "status option"
  full_error :: "string option"
  full_uptime :: "int option"

definition getFullAgentStatus ::
  "registry \<Rightarrow> int \<Rightarrow> service \<Rightarrow> (string \<Rightarrow> json option) \<Rightarrow> real \<Rightarrow> string
     \<Rightarrow> fullAgentStatus" where
  "getFullAgentStatus agents now svc parse rnd roomName =
     (let localStatus = getAgentStatus agents now roomName;
          inRoom = checkAgentInRoom svc parse rnd roomName
      in \<lparr>localProcessRunning = running localStatus,
          agentInRoom = inRoom,
          full_pid = st_pid localStatus,
          full_status = st_status localStatus,
          full_error = st_error localStatus,
          full_uptime = uptime localStatus\<rparr>)"

subsection \<open>Child processes, files and the world the orchestrator acts on\<close>

text \<open>
  The three files of one launch, \<open>agent-<room>-<stamp>.js\<close> under the agent
  directory and \<open>agent-<room>-<stamp>.log\<close>, \<open>agent-<room>-<stamp>-error.log\<close> under
  its \<open>logs\<close> directory. The stamp is the reading of \<open>Date.now()\<close> interpolated into
  the name.
\<close>

datatype artifact =
  Script string int
  | StdoutLog string int
  | StderrLog string int

text \<open>
  A \<open>ChildProcess\<close> returned by \<open>spawn\<close>, with what the closures registered on it
  capture: the room name, and the two log streams that the exit handler ends.
  \<open>childPid\<close> is \<open>None\<close> when \<open>agentProcess.pid\<close> is \<open>undefined\<close>, which is how a
  process that could not be created comes back from \<open>spawn\<close>. With the default
  \<open>stdio\<close> the declared type of the child has non-null \<open>stdout\<close> and \<open>stderr\<close>,
  so the two \<open>pipe\<close> calls and the handler registrations always run.
\<close>

record child =
  forRoom :: string
  script :: artifact
  childPid :: "nat option"
  logStreamEnded :: bool
  errorLogStreamEnded :: bool

record world =
  agentProcesses :: registry
  children :: "child list"
  scripts :: "artifact list"
  logFiles :: "artifact list"
  createdRooms :: "string list"

text \<open>
  What \<open>agentInfo.process.kill('SIGTERM')\<close> does: it returns \<open>true\<close> when the signal
  was delivered, returns \<open>false\<close> when it was not, or throws.
\<close>

datatype killOutcome = KillTrue | KillFalse | KillThrows string

subsection \<open>Stopping\<close>

text \<open>
  \<open>kill\<close> gives the outcome of the signal for each child. The signal's effect on the
  child itself is outside the orchestrator; what comes back from it is a later exit
  event.
\<close>

definition stopAgent :: "(nat \<Rightarrow> killOutcome) \<Rightarrow> string \<Rightarrow> world \<Rightarrow> bool \<times> world" where
  "stopAgent kill roomName w =
     (case agentProcesses w roomName of
        None \<Rightarrow> (False, w)
      | Some agentInfo \<Rightarrow>
          (case kill (process agentInfo) of
             KillTrue \<Rightarrow>
               (True, w\<lparr>agentProcesses := (agentProcesses w)(roomName := None)\<rparr>)
           | KillFalse \<Rightarrow> (False, w)
           | KillThrows err \<Rightarrow> (False, w)))"

subsection \<open>Process events\<close>

text \<open>
  The handler of the child's \<open>error\<close> event, for the room name it captured.
\<close>

definition onError :: "string \<Rightarrow> string \<Rightarrow> world \<Rightarrow> world" where
  "onError roomName message w =
     (case agentProcesses w roomName of
        None \<Rightarrow> w
      | Some agentInfo \<Rightarrow>
          w\<lparr>agentProcesses :=
              (agentProcesses w)(roomName \<mapsto>
                 agentInfo\<lparr>status := Error, error := Some message\<rparr>)\<rparr>)"

text \<open>
  The handler of the child's \<open>exit\<close> event: it deletes whatever record the room has
  and ends the two log streams of the child \<open>c\<close> it was registered on. The exit code
  and the signal are only logged.
\<close>

definition onExit :: "nat \<Rightarrow> string \<Rightarrow> world \<Rightarrow> world" where
  "onExit c roomName w =
     w\<lparr>agentProcesses := (agentProcesses w)(roomName := None),
       children :=
         (children w)[c := (children w ! c)\<lparr>logStreamEnded := True,
                                           errorLogStreamEnded := True\<rparr>]\<rparr>"

text \<open>
  What can run while \<open>startAgent\<close> is suspended at an \<open>await\<close>: an event of a child
  spawned earlier, or a stop request. Further start requests interleaved at these points
  are not part of the model.
\<close>

datatype event =
  ProcError nat string
  | ProcExit nat "int option" "string option"
  | StopRequest string "nat \<Rightarrow> killOutcome"

fun deliver :: "event \<Rightarrow> world \<Rightarrow> world" where
  "deliver (ProcError c message) w =
     (if c < length (children w) then onError (forRoom (children w ! c)) message w else w)"
| "deliver (ProcExit c code signal) w =
     (if c < length (children w) then onExit c (forRoom (children w ! c)) w else w)"
| "deliver (StopRequest roomName kill) w = snd (stopAgent kill roomName w)"

definition deliverAll :: "event list \<Rightarrow> world \<Rightarrow> world" where
  "deliverAll es w = fold deliver es w"

subsection \<open>Starting\<close>

text \<open>
  The outcomes of the external steps of one call of \<open>startAgent\<close>, in the order the
  source takes them: what runs during each \<open>await\<close>, whether writing the script or
  preparing the log directory throws (\<open>Some\<close> message), what \<open>spawn\<close> does (\<open>Inl\<close>: it
  throws; \<open>Inr\<close>: the pid of the child it returns), and the clock readings.
\<close>

record launchEnv =
  whileCheckingRoom :: "event list"
  whileCreatingRoom :: "event list"
  scriptWrite :: "string option"
  logDir :: "string option"
  spawned :: "string + nat option"
  whileWaiting :: "event list"
  tStatus :: int
  tScript :: int
  tLog :: int
  tErrorLog :: int
  tStart :: int

record startResult =
  success :: bool
  res_error :: "string option"
  res_pid :: "nat option"
  alreadyRunning :: "bool option"

definition failure :: "string \<Rightarrow> startResult" where
  "failure message =
     \<lparr>success = False, res_error = Some message, res_pid = None, alreadyRunning = None\<rparr>"

text \<open>
  \<open>agentProcesses.set\<close> with the new record, and the child with its handlers. The
  child's handle is its position in \<open>children\<close>. \<open>agentProcess.pid || 0\<close> is \<open>0\<close> for
  an undefined pid.
\<close>

definition register :: "launchEnv \<Rightarrow> string \<Rightarrow> artifact \<Rightarrow> nat option \<Rightarrow> world \<Rightarrow> world" where
  "register env roomName scriptPath newPid w =
     w\<lparr>children :=
         children w @
           [\<lparr>forRoom = roomName, script = scriptPath, childPid = newPid,
             logStreamEnded = False, errorLogStreamEnded = False\<rparr>],
       agentProcesses :=
         (agentProcesses w)(roomName \<mapsto>
            \<lparr>process = length (children w), status = Starting, error = None,
             pid = (case newPid of None \<Rightarrow> 0 | Some n \<Rightarrow> n),
             startTime = tStart env\<rparr>)\<rparr>"

text \<open>
  The \<open>try\<close> block of \<open>startAgent\<close> up to and including the awaited one-second timer.
  \<open>Inl\<close> is the message of what was thrown, which the \<open>catch\<close> turns into a failed
  result; \<open>Inr\<close> is \<open>agentProcess.pid\<close>. The world is the one at that moment.
\<close>

definition spawnAndWait ::
  "service \<Rightarrow> launchEnv \<Rightarrow> string \<Rightarrow> world \<Rightarrow> (string + nat option) \<times> world" where
  "spawnAndWait svc env roomName w0 =
     (let exists = roomExists svc roomName;
          w1 = deliverAll (whileCheckingRoom env) w0;
          w2 = (if exists then w1 else deliverAll (whileCreatingRoom env) w1)
      in
      case (if exists then None else createRoom svc roomName) of
        Some message \<Rightarrow> (Inl message, w2)
      | None \<Rightarrow>
          (let w3 = (if exists then w2
                     else w2\<lparr>createdRooms := createdRooms w2 @ [roomName]\<rparr>)
           in
           case scriptWrite env of
             Some message \<Rightarrow> (Inl message, w3)
           | None \<Rightarrow>
               (let scriptPath = Script roomName (tScript env);
                    w4 = w3\<lparr>scripts := scripts w3 @ [scriptPath]\<rparr>
                in
                case logDir env of
                  Some message \<Rightarrow> (Inl message, w4)
                | None \<Rightarrow>
                    (let w5 = w4\<lparr>logFiles := logFiles w4 @
                                  [StdoutLog roomName (tLog env),
                                   StderrLog roomName (tErrorLog env)]\<rparr>
                     in
                     case spawned env of
                       Inl message \<Rightarrow> (Inl message, w5)
                     | Inr newPid \<Rightarrow>
                         (Inr newPid,
                          deliverAll (whileWaiting env)
                            (register env roomName scriptPath newPid w5))))))"

text \<open>The update after the timer: \<open>agentInfo.status = 'running'\<close> unless errored or gone.\<close>

definition promote :: "string \<Rightarrow> world \<Rightarrow> world" where
  "promote roomName w =
     (case agentProcesses w roomName of
        None \<Rightarrow> w
      | Some agentInfo \<Rightarrow>
          if status agentInfo \<noteq> Error
          then w\<lparr>agentProcesses :=
                   (agentProcesses w)(roomName \<mapsto> agentInfo\<lparr>status := Running\<rparr>)\<rparr>
          else w)"

definition startAgent :: "service \<Rightarrow> launchEnv \<Rightarrow> string \<Rightarrow> world \<Rightarrow> startResult \<times> world" where
  "startAgent svc env roomName w =
     (if isAgentRunning (agentProcesses w) roomName then
        (\<lparr>success = True, res_error = None,
          res_pid = st_pid (getAgentStatus (agentProcesses w) (tStatus env) roomName),
          alreadyRunning = Some True\<rparr>, w)
      else
        (case spawnAndWait svc env roomName w of
           (Inl message, w') \<Rightarrow> (failure message, w')
         | (Inr newPid, w') \<Rightarrow>
             (\<lparr>success = True, res_error = None, res_pid = newPid,
               alreadyRunning = None\<rparr>,
              promote roomName w')))"


subsection \<open>Two readings of the participant rule\<close>

text \<open>
  The rule as the specification words it: a participant counts when its metadata carries
  a truthy \<open>isAgent\<close> flag or, absent that, when its identity matches the naming
  heuristics.
\<close>

definition carriesAgentFlag :: "(string \<Rightarrow> json option) \<Rightarrow> participant \<Rightarrow> bool" where
  "carriesAgentFlag parse p =
     (metadata p \<noteq> [] \<and>
      (case parse (metadata p) of
         None \<Rightarrow> False
       | Some md \<Rightarrow> isAgentFlag md = Some True))"

definition claimedMatch :: "(string \<Rightarrow> json option) \<Rightarrow> participant \<Rightarrow> bool" where
  "claimedMatch parse p = (carriesAgentFlag parse p \<or> agentIdentity (identity p))"

text \<open>
  Metadata the loop body gets through without throwing: none at all, or text that parses
  to something other than \<open>null\<close>. The rule restricted to such participants.
\<close>

definition usableMetadata :: "(string \<Rightarrow> json option) \<Rightarrow> participant \<Rightarrow> bool" where
  "usableMetadata parse p =
     (metadata p = [] \<or>
      (case parse (metadata p) of
         None \<Rightarrow> False
       | Some md \<Rightarrow> isAgentFlag md \<noteq> None))"

definition countsAsAgent :: "(string \<Rightarrow> json option) \<Rightarrow> participant \<Rightarrow> bool" where
  "countsAsAgent parse p = (usableMetadata parse p \<and> claimedMatch parse p)"

subsection \<open>Sample inputs\<close>

text \<open>\<open>JSON.parse\<close> on the handful of texts the examples use.\<close>

definition sampleParse :: "string \<Rightarrow> json option" where
  \<open>sampleParse s =
     (if s = ''{"isAgent":true}'' then Some (JObject [(''isAgent'', JBool True)])
      else if s = ''{"isAgent":false}'' then Some (JObject [(''isAgent'', JBool False)])
      else if s = ''{"role":"guest"}'' then Some (JObject [(''role'', JString ''guest'')])
      else if s = ''null'' then Some JNull
      else None)\<close>

definition sampleParticipants :: "participant list" where
  \<open>sampleParticipants =
     [\<lparr>identity = ''agent-7'', metadata = ''not json''\<rparr>,
      \<lparr>identity = ''alice'', metadata = ''{"role":"guest"}''\<rparr>,
      \<lparr>identity = ''worker-3'', metadata = ''{"isAgent":true}''\<rparr>]\<close>

text \<open>
  A configured service whose client has no \<open>getRoom\<close>, knows the rooms \<open>lobby\<close> and
  \<open>study-1\<close>, and answers every participant query with \<open>answer\<close>.
\<close>

definition studyService :: "string + participant list \<Rightarrow> service" where
  "studyService answer =
     \<lparr>configured = True, hasGetRoom = False,
      sdkGetRoom = (\<lambda>name. Inl ''getRoom is not a function''),
      sdkListRooms = Inr [''lobby'', ''study-1''],
      sdkCreateRoom = (\<lambda>name. None),
      hasListParticipants = True,
      sdkListParticipants = (\<lambda>name. answer)\<rparr>"

definition emptyWorld :: world where
  "emptyWorld =
     \<lparr>agentProcesses = Map.empty, children = [], scripts = [], logFiles = [],
      createdRooms = []\<rparr>"

text \<open>A launch in which every step succeeds and nothing happens during the waits.\<close>

definition quietEnv :: launchEnv where
  "quietEnv =
     \<lparr>whileCheckingRoom = [], whileCreatingRoom = [], scriptWrite = None, logDir = None,
      spawned = Inr (Some 4242), whileWaiting = [],
      tStatus = 1700000000000, tScript = 1700000000001, tLog = 1700000000002,
      tErrorLog = 1700000000002, tStart = 1700000000003\<rparr>"

text \<open>
  A launch whose executable cannot be started: \<open>spawn\<close> returns a child without a
  pid, and the child's \<open>error\<close> event arrives during the one-second wait.
\<close>

definition enoentEnv :: launchEnv where
  "enoentEnv =
     quietEnv\<lparr>spawned := Inr None, whileWaiting := [ProcError 0 ''spawn node ENOENT'']\<rparr>"


definition runningInfo :: agentInfo where
  "runningInfo =
     \<lparr>process = 0, status = Running, error = None, pid = 4000,
      startTime = 1690000000000\<rparr>"

definition runningWorld :: world where
  "runningWorld =
     \<lparr>agentProcesses = [''study-1'' \<mapsto> runningInfo],
      children = [\<lparr>forRoom = ''study-1'', script = Script ''study-1'' 1689999999999,
                   childPid = Some 4000, logStreamEnded = False,
                   errorLogStreamEnded = False\<rparr>],
      scripts = [Script ''study-1'' 1689999999999],
      logFiles = [StdoutLog ''study-1'' 1690000000000, StderrLog ''study-1'' 1690000000000],
      createdRooms = []\<rparr>"

section \<open>Properties\<close>

subsection \<open>The sample service\<close>

lemma studyService_room: "roomExists (studyService answer) ''study-1''"
  by (simp add: roomExists_def getRoom_def studyService_def)

lemma studyService_fields:
  "configured (studyService answer)"
  "hasListParticipants (studyService answer)"
  "sdkListParticipants (studyService answer) roomName = answer"
  by (simp_all add: studyService_def)

subsection \<open>Local status\<close>

text \<open>
  C7. For every room name, \<open>isAgentRunning\<close> is true exactly when the registry holds a
  record for the room and that record's status is not \<open>Error\<close>.
\<close>

theorem isAgentRunning_iff:
  "isAgentRunning agents roomName =
     (\<exists>info. agents roomName = Some info \<and> status info \<noteq> Error)"
  by (cases "agents roomName") (simp_all add: isAgentRunning_def)

text \<open>
  C10. For every room name, registry and clock reading, the \<open>running\<close> field of
  \<open>getAgentStatus\<close> equals \<open>isAgentRunning\<close>.
\<close>

theorem getAgentStatus_running_agrees:
  "running (getAgentStatus agents now roomName) = isAgentRunning agents roomName"
  by (cases "agents roomName") (simp_all add: getAgentStatus_def isAgentRunning_def)

text \<open>Flooring the quotient by 1000 is integer division of the milliseconds.\<close>

lemma floor_ms: "\<lfloor>real_of_int a / 1000\<rfloor> = a div 1000"
  using floor_divide_of_int_eq [of a 1000] by simp

lemma uptime_record:
  "agents roomName = Some info \<Longrightarrow>
     uptime (getAgentStatus agents now roomName) = Some ((now - startTime info) div 1000)"
  by (simp add: getAgentStatus_def floor_ms del: of_int_diff)

lemma uptime_absent:
  "agents roomName = None \<Longrightarrow> uptime (getAgentStatus agents now roomName) = None"
  by (simp add: getAgentStatus_def)

text \<open>
  C9. The status query reports no uptime for a room without a record, and for a room with
  a record the whole seconds between the record's start time and the clock reading of
  the query. Two queries whose clock readings \<open>now \<le> later\<close> are not earlier than the
  start time, made while the room keeps a record with that start time (its status may
  have changed in between), report uptimes \<open>0 \<le> u \<le> u'\<close>.
\<close>

theorem uptime_whole_seconds:
  "(agents roomName = None \<longrightarrow> uptime (getAgentStatus agents now roomName) = None) \<and>
   (\<forall>info. agents roomName = Some info \<longrightarrow>
      uptime (getAgentStatus agents now roomName) =
        Some ((now - startTime info) div 1000)) \<and>
   (\<forall>info info'.
      agents roomName = Some info \<and> agents' roomName = Some info' \<and>
      startTime info' = startTime info \<and> startTime info \<le> now \<and> now \<le> later \<longrightarrow>
      (\<exists>u u'. uptime (getAgentStatus agents now roomName) = Some u \<and>
               uptime (getAgentStatus agents' later roomName) = Some u' \<and>
               0 \<le> u \<and> u \<le> u'))"
proof -
  have mono: "0 \<le> (now - s) div 1000 \<and> (now - s) div 1000 \<le> (later - s) div 1000"
    if "s \<le> now" "now \<le> later" for s :: int
  proof -
    have "0 \<le> (now - s) div 1000" using that by simp
    moreover have "(now - s) div 1000 \<le> (later - s) div 1000"
      using that by (intro zdiv_mono1) simp_all
    ultimately show ?thesis by simp
  qed
  show ?thesis
    using mono by (auto simp: uptime_record uptime_absent)
qed

text \<open>
  A record started at 1690000000000 ms, queried 2.5 s and 61 s later; a room without a
  record.
\<close>

theorem uptime_whole_seconds_witness:
  "[''study-1'' \<mapsto> runningInfo] ''study-1'' = Some runningInfo \<and>
   [''study-1'' \<mapsto> runningInfo] ''lobby'' = None \<and>
   startTime runningInfo \<le> 1690000002500 \<and> (1690000002500 :: int) \<le> 1690000061000 \<and>
   uptime (getAgentStatus [''study-1'' \<mapsto> runningInfo] 1690000002500 ''study-1'') = Some 2 \<and>
   uptime (getAgentStatus [''study-1'' \<mapsto> runningInfo] 1690000061000 ''study-1'') = Some 61 \<and>
   uptime (getAgentStatus [''study-1'' \<mapsto> runningInfo] 1690000002500 ''lobby'') = None"
  using uptime_whole_seconds
    [of "[''study-1'' \<mapsto> runningInfo]" "''study-1''" 1690000002500
        "[''study-1'' \<mapsto> runningInfo]" 1690000061000]
    uptime_whole_seconds
    [of "[''study-1'' \<mapsto> runningInfo]" "''lobby''" 1690000002500
        "[''study-1'' \<mapsto> runningInfo]" 1690000061000]
  by (simp add: runningInfo_def uptime_record uptime_absent)

subsection \<open>Stopping\<close>



subsection \<open>What interleaved events leave alone\<close>

text \<open>
  Events touch the registry and the ended flags of log streams. They never add or drop
  a child, change which room a child was launched for or its pid, or write a script.
\<close>

lemma onExit_frame:
  "c < length (children w) \<Longrightarrow>
     map forRoom (children (onExit c r w)) = map forRoom (children w) \<and>
     map childPid (children (onExit c r w)) = map childPid (children w) \<and>
     scripts (onExit c r w) = scripts w"
  by (simp add: onExit_def map_update list_update_same_conv)

lemma deliver_frame:
  "map forRoom (children (deliver e w)) = map forRoom (children w) \<and>
   map childPid (children (deliver e w)) = map childPid (children w) \<and>
   scripts (deliver e w) = scripts w"
proof (cases e)
  case (ProcError c message)
  then show ?thesis by (simp add: onError_def split: option.splits)
next
  case (ProcExit c code signal)
  then show ?thesis using onExit_frame by simp
next
  case (StopRequest r kill)
  then show ?thesis
    by (simp add: stopAgent_def split: option.splits killOutcome.splits)
qed

lemma deliverAll_frame:
  "map forRoom (children (deliverAll es w)) = map forRoom (children w) \<and>
   map childPid (children (deliverAll es w)) = map childPid (children w) \<and>
   scripts (deliverAll es w) = scripts w"
  unfolding deliverAll_def
proof (induction es arbitrary: w)
  case Nil
  show ?case by simp
next
  case (Cons e es)
  show ?case using Cons.IH [of "deliver e w"] deliver_frame [of e w] by simp
qed

lemma deliverAll_length:
  "length (children (deliverAll es w)) = length (children w)"
  using deliverAll_frame [of es w] by (metis length_map)

lemma deliverAll_Nil: "deliverAll [] w = w"
  by (simp add: deliverAll_def)

subsection \<open>Starting\<close>

text \<open>
  C2. When the room has a record whose status is not \<open>Error\<close>, \<open>startAgent\<close> returns
  success with \<open>alreadyRunning = true\<close> and the record's pid, and the state it returns
  is the state it was given: no child spawned, no file written, the registry as it was.
\<close>

theorem startAgent_idempotent:
  assumes "agentProcesses w roomName = Some info" and "status info \<noteq> Error"
  shows "startAgent svc env roomName w =
           (\<lparr>success = True, res_error = None, res_pid = Some (pid info),
             alreadyRunning = Some True\<rparr>, w)"
  using assms by (simp add: startAgent_def isAgentRunning_def getAgentStatus_def)

text \<open>A quiet launch into the empty registry, step by step.\<close>

lemma quiet_launch:
  "startAgent (studyService (Inr [])) quietEnv ''study-1'' emptyWorld =
     (\<lparr>success = True, res_error = None, res_pid = Some 4242, alreadyRunning = None\<rparr>,
      \<lparr>agentProcesses =
         [''study-1'' \<mapsto> \<lparr>process = 0, status = Running, error = None, pid = 4242,
                           startTime = 1700000000003\<rparr>],
       children = [\<lparr>forRoom = ''study-1'', script = Script ''study-1'' 1700000000001,
                    childPid = Some 4242, logStreamEnded = False,
                    errorLogStreamEnded = False\<rparr>],
       scripts = [Script ''study-1'' 1700000000001],
       logFiles = [StdoutLog ''study-1'' 1700000000002, StderrLog ''study-1'' 1700000000002],
       createdRooms = []\<rparr>)"
  by (simp add: startAgent_def isAgentRunning_def spawnAndWait_def studyService_room
      Let_def register_def deliverAll_def promote_def quietEnv_def emptyWorld_def)

text \<open>
  A start for a room whose agent is running with pid 4000; and two starts in a row for a
  room without a record, the second of which finds the first one's agent and spawns
  nothing.
\<close>

theorem startAgent_idempotent_witness:
  "agentProcesses runningWorld ''study-1'' = Some runningInfo \<and>
   status runningInfo \<noteq> Error \<and>
   startAgent (studyService (Inr [])) quietEnv ''study-1'' runningWorld =
     (\<lparr>success = True, res_error = None, res_pid = Some 4000,
       alreadyRunning = Some True\<rparr>, runningWorld) \<and>
   fst (startAgent (studyService (Inr [])) quietEnv ''study-1''
          (snd (startAgent (studyService (Inr [])) quietEnv ''study-1'' emptyWorld))) =
     \<lparr>success = True, res_error = None, res_pid = Some 4242, alreadyRunning = Some True\<rparr> \<and>
   length (children (snd (startAgent (studyService (Inr [])) quietEnv ''study-1''
          (snd (startAgent (studyService (Inr [])) quietEnv ''study-1'' emptyWorld))))) = 1"
  using startAgent_idempotent
      [of runningWorld "''study-1''" runningInfo "studyService (Inr [])" quietEnv]
    startAgent_idempotent
      [of "snd (startAgent (studyService (Inr [])) quietEnv ''study-1'' emptyWorld)"
        "''study-1''"
        "\<lparr>process = 0, status = Running, error = None, pid = 4242,
          startTime = 1700000000003\<rparr>"
        "studyService (Inr [])" quietEnv]
  by (simp add: runningWorld_def runningInfo_def quiet_launch)

text \<open>
  Past the early return, a launch whose \<open>try\<close> block reaches the timer ends in the one
  \<open>return\<close> after it, whatever happened to the record in the meantime.
\<close>

lemma startAgent_launch:
  assumes "\<not> isAgentRunning (agentProcesses w) roomName"
    and "fst (spawnAndWait svc env roomName w) = Inr newPid"
  shows "startAgent svc env roomName w =
           (\<lparr>success = True, res_error = None, res_pid = newPid, alreadyRunning = None\<rparr>,
            promote roomName (snd (spawnAndWait svc env roomName w)))"
  using assms by (cases "spawnAndWait svc env roomName w") (simp add: startAgent_def)

lemma startAgent_fresh:
  assumes "\<not> isAgentRunning (agentProcesses w) roomName"
  shows "alreadyRunning (fst (startAgent svc env roomName w)) = None"
  using assms
  by (simp add: startAgent_def failure_def split: prod.splits sum.splits)

lemma promote_registry:
  "agentProcesses (promote roomName w) =
     (case agentProcesses w roomName of
        None \<Rightarrow> agentProcesses w
      | Some info \<Rightarrow>
          if status info \<noteq> Error
          then (agentProcesses w)(roomName \<mapsto> info\<lparr>status := Running\<rparr>)
          else agentProcesses w)"
  by (simp add: promote_def split: option.splits)

lemma promote_children: "children (promote roomName w) = children w"
  by (simp add: promote_def split: option.splits)

lemma promote_idem: "promote roomName (promote roomName w) = promote roomName w"
  by (cases "agentProcesses w roomName") (simp_all add: promote_def)

text \<open>
  C4. For a launch that reaches the timer, let \<open>wg\<close> be the state when the timer fires
  and \<open>w'\<close> the state \<open>startAgent\<close> returns. If the room's record exists in \<open>wg\<close> with
  a status other than \<open>Error\<close>, it is the same record with status \<open>Running\<close> in \<open>w'\<close>;
  if its status is \<open>Error\<close> it is unchanged; if it is gone it stays gone. Nothing else
  differs between \<open>wg\<close> and \<open>w'\<close>, and promoting again would change nothing.
\<close>

theorem grace_period_promotion:
  assumes "\<not> isAgentRunning (agentProcesses w) roomName"
    and "fst (spawnAndWait svc env roomName w) = Inr newPid"
    and "wg = snd (spawnAndWait svc env roomName w)"
    and "w' = snd (startAgent svc env roomName w)"
  shows "(\<forall>info. agentProcesses wg roomName = Some info \<and> status info \<noteq> Error \<longrightarrow>
            agentProcesses w' roomName = Some (info\<lparr>status := Running\<rparr>)) \<and>
         (\<forall>info. agentProcesses wg roomName = Some info \<and> status info = Error \<longrightarrow>
            agentProcesses w' roomName = Some info) \<and>
         (agentProcesses wg roomName = None \<longrightarrow> agentProcesses w' roomName = None) \<and>
         (\<forall>other. other \<noteq> roomName \<longrightarrow> agentProcesses w' other = agentProcesses wg other) \<and>
         children w' = children wg \<and> scripts w' = scripts wg \<and>
         logFiles w' = logFiles wg \<and> createdRooms w' = createdRooms wg \<and>
         promote roomName w' = w'"
proof -
  have w': "w' = promote roomName wg"
    using assms by (simp add: startAgent_launch)
  have rest: "scripts (promote roomName wg) = scripts wg"
    "logFiles (promote roomName wg) = logFiles wg"
    "createdRooms (promote roomName wg) = createdRooms wg"
    by (simp_all add: promote_def split: option.splits)
  show ?thesis
    unfolding w'
    by (simp add: promote_registry promote_children promote_idem rest split: option.splits)
qed

text \<open>
  A quiet launch, whose record is \<open>Starting\<close> when the timer fires and \<open>Running\<close>
  afterwards, and a launch whose child reported an error during the wait, whose record
  is \<open>Error\<close> before and after.
\<close>

theorem grace_period_promotion_witness:
  "\<not> isAgentRunning (agentProcesses emptyWorld) ''study-1'' \<and>
   fst (spawnAndWait (studyService (Inr [])) quietEnv ''study-1'' emptyWorld)
     = Inr (Some 4242) \<and>
   map_option status
     (agentProcesses (snd (spawnAndWait (studyService (Inr [])) quietEnv ''study-1''
        emptyWorld)) ''study-1'') = Some Starting \<and>
   map_option status
     (agentProcesses (snd (startAgent (studyService (Inr [])) quietEnv ''study-1''
        emptyWorld)) ''study-1'') = Some Running \<and>
   fst (spawnAndWait (studyService (Inr [])) enoentEnv ''study-1'' emptyWorld)
     = Inr None \<and>
   map_option status
     (agentProcesses (snd (spawnAndWait (studyService (Inr [])) enoentEnv ''study-1''
        emptyWorld)) ''study-1'') = Some Error \<and>
   map_option status
     (agentProcesses (snd (startAgent (studyService (Inr [])) enoentEnv ''study-1''
        emptyWorld)) ''study-1'') = Some Error"
proof -
  have room: "roomExists (studyService (Inr [])) ''study-1''"
    by (simp add: roomExists_def getRoom_def studyService_def)
  show ?thesis
    using grace_period_promotion
      [of emptyWorld "''study-1''" "studyService (Inr [])" quietEnv "Some 4242",
       OF _ _ refl refl]
      grace_period_promotion
      [of emptyWorld "''study-1''" "studyService (Inr [])" enoentEnv None,
       OF _ _ refl refl]
    by (simp add: startAgent_def isAgentRunning_def spawnAndWait_def room
        Let_def register_def deliverAll_def onError_def promote_def enoentEnv_def
        quietEnv_def emptyWorld_def)
qed

subsection \<open>Failure to create the process\<close>


lemma spawnAndWait_success:
  assumes "roomExists svc roomName \<or> createRoom svc roomName = None"
    and "scriptWrite env = None" and "logDir env = None" and "spawned env = Inr newPid"
  shows "fst (spawnAndWait svc env roomName w) = Inr newPid \<and>
         scripts (snd (spawnAndWait svc env roomName w)) =
           scripts w @ [Script roomName (tScript env)] \<and>
         map forRoom (children (snd (spawnAndWait svc env roomName w))) =
           map forRoom (children w) @ [roomName] \<and>
         map childPid (children (snd (spawnAndWait svc env roomName w))) =
           map childPid (children w) @ [newPid]"
  using assms
  by (auto simp: spawnAndWait_def Let_def register_def deliverAll_frame)

lemma spawnAndWait_quiet:
  assumes "roomExists svc roomName \<or> createRoom svc roomName = None"
    and "scriptWrite env = None" and "logDir env = None" and "spawned env = Inr newPid"
    and "whileWaiting env = []"
  shows "agentProcesses (snd (spawnAndWait svc env roomName w)) roomName =
           Some \<lparr>process = length (children w), status = Starting, error = None,
                 pid = (case newPid of None \<Rightarrow> 0 | Some n \<Rightarrow> n),
                 startTime = tStart env\<rparr>"
  using assms
  by (auto simp: spawnAndWait_def Let_def register_def deliverAll_length deliverAll_Nil)


text \<open>
  Once \<open>spawn\<close> has returned, the result is a success whatever the child reports during
  the wait.
\<close>

lemma startAgent_success_after_spawn:
  assumes "\<not> isAgentRunning (agentProcesses w) roomName"
    and "fst (spawnAndWait svc env roomName w) = Inr newPid"
  shows "success (fst (startAgent svc env roomName w))"
  using assms by (simp add: startAgent_launch)




subsection \<open>Exit of the child\<close>

text \<open>
  C3. Let the room have a record whose process is the child \<open>c\<close>, launched for that
  room, and let \<open>c\<close> emit its exit event with any code and signal. Then the record is
  gone, both log streams of \<open>c\<close> are ended, and \<open>isAgentRunning\<close> is false. A
  \<open>startAgent\<close> that follows never answers \<open>alreadyRunning\<close>; when its external steps
  succeed it returns the pid of the process it spawned, has written one more script and
  spawned one more child, and (with nothing happening during its wait) leaves a
  \<open>Running\<close> record that points at the new child.
\<close>

theorem exit_clean_slate:
  assumes rec: "agentProcesses w roomName = Some info"
    and own: "process info = c"
    and c: "c < length (children w)"
    and room: "forRoom (children w ! c) = roomName"
    and w': "w' = deliver (ProcExit c code signal) w"
    and out: "out = startAgent svc env roomName w'"
  shows "agentProcesses w' roomName = None \<and>
         logStreamEnded (children w' ! c) \<and> errorLogStreamEnded (children w' ! c) \<and>
         \<not> isAgentRunning (agentProcesses w') roomName \<and>
         alreadyRunning (fst out) = None \<and>
         ((roomExists svc roomName \<or> createRoom svc roomName = None) \<and>
          scriptWrite env = None \<and> logDir env = None \<and> spawned env = Inr newPid \<longrightarrow>
            fst out = \<lparr>success = True, res_error = None, res_pid = newPid,
                        alreadyRunning = None\<rparr> \<and>
            scripts (snd out) = scripts w @ [Script roomName (tScript env)] \<and>
            length (children (snd out)) = Suc (length (children w)) \<and>
            childPid (children (snd out) ! length (children w)) = newPid \<and>
            (whileWaiting env = [] \<longrightarrow>
               agentProcesses (snd out) roomName =
                 Some \<lparr>process = length (children w), status = Running, error = None,
                       pid = (case newPid of None \<Rightarrow> 0 | Some n \<Rightarrow> n),
                       startTime = tStart env\<rparr>))"
proof -
  have gone: "agentProcesses w' roomName = None"
    using c room by (simp add: w' onExit_def)
  have ended: "logStreamEnded (children w' ! c) \<and> errorLogStreamEnded (children w' ! c)"
    using c by (simp add: w' onExit_def)
  have idle: "\<not> isAgentRunning (agentProcesses w') roomName"
    by (simp add: isAgentRunning_def gone)
  have len: "length (children w') = length (children w)"
    using deliver_frame [of "ProcExit c code signal" w] unfolding w' by (metis length_map)
  have scr: "scripts w' = scripts w"
    using deliver_frame [of "ProcExit c code signal" w] unfolding w' by simp
  have fresh: "alreadyRunning (fst out) = None"
    unfolding out using idle by (rule startAgent_fresh)
  have launch: "fst out = \<lparr>success = True, res_error = None, res_pid = newPid,
                        alreadyRunning = None\<rparr> \<and>
            scripts (snd out) = scripts w @ [Script roomName (tScript env)] \<and>
            length (children (snd out)) = Suc (length (children w)) \<and>
            childPid (children (snd out) ! length (children w)) = newPid \<and>
            (whileWaiting env = [] \<longrightarrow>
               agentProcesses (snd out) roomName =
                 Some \<lparr>process = length (children w), status = Running, error = None,
                       pid = (case newPid of None \<Rightarrow> 0 | Some n \<Rightarrow> n),
                       startTime = tStart env\<rparr>)"
    if ok: "roomExists svc roomName \<or> createRoom svc roomName = None"
      "scriptWrite env = None" "logDir env = None" "spawned env = Inr newPid"
  proof -
    let ?sw = "spawnAndWait svc env roomName w'"
    note s = spawnAndWait_success [OF ok, where w = w']
    have out': "out = (\<lparr>success = True, res_error = None, res_pid = newPid,
                        alreadyRunning = None\<rparr>, promote roomName (snd ?sw))"
      unfolding out using idle s by (simp add: startAgent_launch)
    have l: "length (children (snd ?sw)) = Suc (length (children w))"
      using s len by (metis length_map length_append_singleton)
    have "map childPid (children (snd ?sw)) ! length (children w) = newPid"
      using s len by (metis length_map nth_append_length)
    then have p: "childPid (children (snd ?sw) ! length (children w)) = newPid"
      using l by (metis lessI nth_map)
    have q: "agentProcesses (promote roomName (snd ?sw)) roomName =
                 Some \<lparr>process = length (children w), status = Running, error = None,
                       pid = (case newPid of None \<Rightarrow> 0 | Some n \<Rightarrow> n),
                       startTime = tStart env\<rparr>" if "whileWaiting env = []"
      using spawnAndWait_quiet [OF ok that, where w = w'] len
      by (simp add: promote_registry)
    show ?thesis
      using s l p q by (simp add: out' promote_children scr promote_def split: option.splits)
  qed
  show ?thesis using gone ended idle fresh launch by blast
qed

text \<open>
  The agent of \<open>study-1\<close> (pid 4000) exits with code 1; the next start spawns pid 4242
  and writes a second script.
\<close>

theorem exit_clean_slate_witness:
  "agentProcesses runningWorld ''study-1'' = Some runningInfo \<and>
   process runningInfo = 0 \<and>
   0 < length (children runningWorld) \<and>
   forRoom (children runningWorld ! 0) = ''study-1'' \<and>
   agentProcesses (deliver (ProcExit 0 (Some 1) None) runningWorld) ''study-1'' = None \<and>
   \<not> isAgentRunning (agentProcesses (deliver (ProcExit 0 (Some 1) None) runningWorld))
       ''study-1'' \<and>
   fst (startAgent (studyService (Inr [])) quietEnv ''study-1''
         (deliver (ProcExit 0 (Some 1) None) runningWorld)) =
     \<lparr>success = True, res_error = None, res_pid = Some 4242, alreadyRunning = None\<rparr> \<and>
   scripts (snd (startAgent (studyService (Inr [])) quietEnv ''study-1''
         (deliver (ProcExit 0 (Some 1) None) runningWorld))) =
     [Script ''study-1'' 1689999999999, Script ''study-1'' 1700000000001] \<and>
   map_option pid (agentProcesses (snd (startAgent (studyService (Inr [])) quietEnv
         ''study-1'' (deliver (ProcExit 0 (Some 1) None) runningWorld))) ''study-1'') =
     Some 4242"
proof -
  have h: "agentProcesses runningWorld ''study-1'' = Some runningInfo"
    "process runningInfo = 0" "0 < length (children runningWorld)"
    "forRoom (children runningWorld ! 0) = ''study-1''"
    by (simp_all add: runningWorld_def runningInfo_def)
  have e: "scriptWrite quietEnv = None" "logDir quietEnv = None"
    "spawned quietEnv = Inr (Some 4242)" "whileWaiting quietEnv = []"
    "tScript quietEnv = 1700000000001"
    "scripts runningWorld = [Script ''study-1'' 1689999999999]"
    by (simp_all add: quietEnv_def runningWorld_def)
  have r: "roomExists (studyService (Inr [])) ''study-1''"
    by (simp add: roomExists_def getRoom_def studyService_def)
  show ?thesis
    using exit_clean_slate [OF h refl refl, of "Some 1" None "studyService (Inr [])"
        quietEnv "Some 4242"] h e r
    by simp
qed

subsection \<open>Presence check\<close>

lemma roomExists_configured: "roomExists svc roomName \<Longrightarrow> configured svc"
  by (simp add: roomExists_def getRoom_def split: if_splits)

lemma inspectParticipant_eq:
  "inspectParticipant parse p = (if countsAsAgent parse p then Some True else None)"
  by (auto simp: inspectParticipant_def countsAsAgent_def usableMetadata_def
      claimedMatch_def carriesAgentFlag_def split: option.splits bool.splits)

lemma scanParticipants_eq:
  "scanParticipants parse ps = (if list_ex (countsAsAgent parse) ps then Some True else None)"
  by (induction ps) (simp_all add: inspectParticipant_eq)

text \<open>
  The rule as worded fails on a participant named \<open>agent-7\<close> whose metadata is not
  JSON: the identity matches the heuristics and no flag is present, yet the participant
  is skipped and the check answers false.
\<close>

theorem presence_check_counterexample:
  "roomExists (studyService (Inr [\<lparr>identity = ''agent-7'', metadata = ''not json''\<rparr>]))
     ''study-1'' \<and>
   claimedMatch sampleParse \<lparr>identity = ''agent-7'', metadata = ''not json''\<rparr> \<and>
   checkAgentInRoom (studyService (Inr [\<lparr>identity = ''agent-7'', metadata = ''not json''\<rparr>]))
     sampleParse 0 ''study-1'' = False"
proof -
  have "agentIdentity ''agent-7''"
    by (simp add: agentIdentity_def startsWith_def)
  then show ?thesis
    by (simp add: studyService_room studyService_fields claimedMatch_def
        checkAgentInRoom_def inspectParticipant_def sampleParse_def)
qed

text \<open>
  C8, amended. The presence check answers false when the room is not known to the
  service. When the room is known and the participant query returns a list, it answers
  true exactly when some participant has usable metadata (none, or text that parses to
  a value other than \<open>null\<close>) and either carries a truthy \<open>isAgent\<close> flag or, absent
  that, has an identity matching the naming heuristics; a participant whose metadata
  does not parse, or parses to \<open>null\<close>, is skipped whatever its identity.
\<close>

theorem presence_check_amended:
  "(\<not> roomExists svc roomName \<longrightarrow> checkAgentInRoom svc parse rnd roomName = False) \<and>
   (roomExists svc roomName \<and> hasListParticipants svc \<and>
    sdkListParticipants svc roomName = Inr ps \<longrightarrow>
      checkAgentInRoom svc parse rnd roomName = list_ex (countsAsAgent parse) ps)"
  using roomExists_configured [of svc roomName]
  by (auto simp: checkAgentInRoom_def scanParticipants_eq)

text \<open>
  A room the service does not know, and \<open>study-1\<close> with three participants: one
  skipped for its metadata, one guest, one flagged as an agent.
\<close>

theorem presence_check_amended_witness:
  "\<not> roomExists (studyService (Inr sampleParticipants)) ''nowhere'' \<and>
   checkAgentInRoom (studyService (Inr sampleParticipants)) sampleParse 0 ''nowhere''
     = False \<and>
   roomExists (studyService (Inr sampleParticipants)) ''study-1'' \<and>
   hasListParticipants (studyService (Inr sampleParticipants)) \<and>
   sdkListParticipants (studyService (Inr sampleParticipants)) ''study-1''
     = Inr sampleParticipants \<and>
   checkAgentInRoom (studyService (Inr sampleParticipants)) sampleParse 0 ''study-1''
     = True"
proof -
  let ?svc = "studyService (Inr sampleParticipants)"
  have a: "\<not> roomExists ?svc ''nowhere''"
    by (simp add: roomExists_def getRoom_def studyService_def)
  have c: "list_ex (countsAsAgent sampleParse) sampleParticipants"
    by (simp add: sampleParticipants_def countsAsAgent_def usableMetadata_def
        claimedMatch_def carriesAgentFlag_def sampleParse_def)
  show ?thesis
    using presence_check_amended [of ?svc "''nowhere''" sampleParse 0 sampleParticipants]
      presence_check_amended [of ?svc "''study-1''" sampleParse 0 sampleParticipants]
      a c studyService_room [of "Inr sampleParticipants"]
      studyService_fields [of "Inr sampleParticipants"]
    by simp
qed

text \<open>When the participant query fails, the answer is the random draw against 0.7.\<close>

lemma checkAgentInRoom_query_rejected:
  assumes "roomExists svc roomName" and "hasListParticipants svc"
    and "sdkListParticipants svc roomName = Inl err"
  shows "checkAgentInRoom svc parse rnd roomName = (rnd > 7 / 10)"
  using assms roomExists_configured [of svc roomName]
  by (simp add: checkAgentInRoom_def)

text \<open>
  C1, evaluated on a known room whose participant query is refused. The answer follows
  the random draw: true for a draw of 0.9, false for a draw of 0.5. The false is the
  same value the check gives for a room observed to have no participants, and
  \<open>getFullAgentStatus\<close> passes it on unchanged.
\<close>

theorem presence_check_query_failure:
  "checkAgentInRoom (studyService (Inl ''connect ECONNREFUSED'')) sampleParse (9 / 10)
     ''study-1'' = True \<and>
   checkAgentInRoom (studyService (Inl ''connect ECONNREFUSED'')) sampleParse (1 / 2)
     ''study-1'' = False \<and>
   checkAgentInRoom (studyService (Inr [])) sampleParse (1 / 2) ''study-1'' = False \<and>
   agentInRoom (getFullAgentStatus Map.empty 0 (studyService (Inl ''connect ECONNREFUSED''))
     sampleParse (1 / 2) ''study-1'') =
   agentInRoom (getFullAgentStatus Map.empty 0 (studyService (Inr [])) sampleParse (1 / 2)
     ''study-1'')"
  by (simp add: getFullAgentStatus_def checkAgentInRoom_def studyService_room
      studyService_fields)

subsection \<open>A run from start to exit\<close>

text \<open>
  The room \<open>study-1\<close> has no record; a quiet launch leaves it \<open>Running\<close>; five seconds
  on, the full status reports the local process as running with an uptime of four whole
  seconds; the process is then terminated by a signal and the local status is the bare
  \<open>running = false\<close>.
\<close>

lemma start_status_exit:
  "agentProcesses emptyWorld ''study-1'' = None \<and>
   localProcessRunning
     (getFullAgentStatus
        (agentProcesses (snd (startAgent (studyService (Inr [])) quietEnv ''study-1'' emptyWorld)))
        1700000005000 (studyService (Inr sampleParticipants)) sampleParse 0 ''study-1'') \<and>
   full_uptime
     (getFullAgentStatus
        (agentProcesses (snd (startAgent (studyService (Inr [])) quietEnv ''study-1'' emptyWorld)))
        1700000005000 (studyService (Inr sampleParticipants)) sampleParse 0 ''study-1'')
     = Some 4 \<and>
   getAgentStatus
     (agentProcesses
        (deliver (ProcExit 0 None (Some ''SIGTERM''))
           (snd (startAgent (studyService (Inr [])) quietEnv ''study-1'' emptyWorld))))
     1700000009000 ''study-1'' =
     \<lparr>running = False, st_pid = None, st_status = None, st_error = None, uptime = None\<rparr>"
  unfolding quiet_launch
  by (simp add: getFullAgentStatus_def getAgentStatus_def onExit_def
      emptyWorld_def floor_ms del: of_int_diff)

end
